theory Spec2Isabelle
  imports Main "HOL-Library.Word"
begin

section \<open>Strings, bytes and the Python library functions used by tbot.py\<close>

text \<open>
  A Python \<open>str\<close> is a sequence of Unicode code points, so it is modelled as a list of
  natural numbers (\<open>len\<close> is \<open>length\<close>, \<open>s[:n]\<close> is \<open>take n s\<close>). A \<open>bytes\<close> object is
  a list of 8-bit words. ASCII literals of the source are written as HOL strings and
  converted with \<open>lit\<close>.
\<close>

type_synonym pystr = "nat list"
type_synonym byte = "8 word"

definition lit :: "string \<Rightarrow> pystr" where
  "lit s = map of_char s"

datatype exn = OSError | UnicodeEncodeError

subsection \<open>The character class \<open>\w\<close> of a str pattern\<close>

text \<open>
  In Python 3 a str pattern without the ASCII flag matches \<open>\w\<close> against every
  Unicode alphanumeric (as \<open>str.isalnum\<close> has it) and the underscore. The table
  is part of the Python runtime. It is written out here for ASCII and for the Latin-1
  supplement (U+0080 to U+00FF); for the code points from U+0100 on it is the
  parameter \<open>uni\<close> of every function that depends on it.
\<close>

definition ascii_alnum :: "nat \<Rightarrow> bool" where
  "ascii_alnum c = ((48 \<le> c \<and> c \<le> 57) \<or> (65 \<le> c \<and> c \<le> 90) \<or> (97 \<le> c \<and> c \<le> 122))"

definition latin1_alnum :: "nat \<Rightarrow> bool" where
  "latin1_alnum c =
     (c = 170 \<or> c = 178 \<or> c = 179 \<or> c = 181 \<or> c = 185 \<or> c = 186 \<or>
      (188 \<le> c \<and> c \<le> 190) \<or> (192 \<le> c \<and> c \<le> 214) \<or>
      (216 \<le> c \<and> c \<le> 246) \<or> (248 \<le> c \<and> c \<le> 255))"

definition isalnum :: "(nat \<Rightarrow> bool) \<Rightarrow> nat \<Rightarrow> bool" where
  "isalnum uni c =
     (if c < 128 then ascii_alnum c else if c < 256 then latin1_alnum c else uni c)"

definition word_char :: "(nat \<Rightarrow> bool) \<Rightarrow> nat \<Rightarrow> bool" where
  "word_char uni c = (isalnum uni c \<or> c = 95)"

text \<open>The class \<open>[^\w\-]\<close>: everything that is neither a word character nor a hyphen.\<close>

definition problematic :: "(nat \<Rightarrow> bool) \<Rightarrow> nat \<Rightarrow> bool" where
  "problematic uni c = (\<not> (word_char uni c \<or> c = 45))"

text \<open>\<open>re.sub(cls, '', s)\<close> for a pattern that is one character class: every
  matching character is deleted.\<close>

definition re_sub_delete :: "(nat \<Rightarrow> bool) \<Rightarrow> pystr \<Rightarrow> pystr" where
  "re_sub_delete cls s = filter (\<lambda>c. \<not> cls c) s"

text \<open>A table with no alphanumeric from U+0100 on, for evaluating examples whose
  characters all lie below U+0100.\<close>

definition no_wide_alnum :: "nat \<Rightarrow> bool" where
  "no_wide_alnum c = False"

subsection \<open>sanitize_voice_name\<close>

definition sanitize_voice_name :: "(nat \<Rightarrow> bool) \<Rightarrow> pystr \<Rightarrow> pystr" where
  "sanitize_voice_name uni name = take 50 (re_sub_delete (problematic uni) name)"

text \<open>The rule in the words of the specification: keep ASCII letters, ASCII digits,
  underscore and hyphen, drop everything else, truncate to 50 characters.\<close>

definition ascii_name_char :: "nat \<Rightarrow> bool" where
  "ascii_name_char c = (ascii_alnum c \<or> c = 95 \<or> c = 45)"

definition spec_sanitize :: "pystr \<Rightarrow> pystr" where
  "spec_sanitize name = take 50 (filter ascii_name_char name)"

subsection \<open>pathlib: suffix and stem of a file name\<close>

text \<open>
  \<open>str.rfind\<close> for a single character: the index of its last occurrence, or \<open>-1\<close>.
  \<open>PurePath.suffix\<close> and \<open>PurePath.stem\<close> (CPython up to 3.13) cut the name at the
  last dot, unless that dot is the first or the last character of the name.
\<close>

fun rfind :: "pystr \<Rightarrow> nat \<Rightarrow> int" where
  "rfind [] c = - 1"
| "rfind (x # xs) c =
     (let r = rfind xs c in if 0 \<le> r then r + 1 else if x = c then 0 else - 1)"

definition suffix :: "pystr \<Rightarrow> pystr" where
  "suffix name =
     (let i = rfind name 46 in
      if 0 < i \<and> i < int (length name) - 1 then drop (nat i) name else [])"

definition stem :: "pystr \<Rightarrow> pystr" where
  "stem name =
     (let i = rfind name 46 in
      if 0 < i \<and> i < int (length name) - 1 then take (nat i) name else name)"

text \<open>
  \<open>str.lower\<close>, written out for ASCII and the Latin-1 supplement. From U+0100 on the
  mapping is left as the identity: no code point outside ASCII is lowered to one of the
  four characters of \<open>.wav\<close>, so the comparison of a lowered suffix with \<open>.wav\<close>,
  the only use of \<open>lower\<close> in the source, does not depend on that part of the table.
\<close>

definition lower_char :: "nat \<Rightarrow> nat" where
  "lower_char c =
     (if (65 \<le> c \<and> c \<le> 90) \<or> (192 \<le> c \<and> c \<le> 214) \<or> (216 \<le> c \<and> c \<le> 222)
      then c + 32 else c)"

definition lower :: "pystr \<Rightarrow> pystr" where
  "lower s = map lower_char s"

definition startswith :: "pystr \<Rightarrow> pystr \<Rightarrow> bool" where
  "startswith s p = (take (length p) s = p)"

text \<open>\<open>" ".join(args)\<close>\<close>

fun join_sp :: "pystr list \<Rightarrow> pystr" where
  "join_sp [] = []"
| "join_sp [a] = a"
| "join_sp (a # b # rest) = a @ [32] @ join_sp (b # rest)"

subsection \<open>\<open>str.encode()\<close>: UTF-8\<close>

text \<open>A surrogate (U+D800 to U+DFFF) cannot be encoded: Python raises
  \<open>UnicodeEncodeError\<close>.\<close>

definition utf8_char :: "nat \<Rightarrow> exn + byte list" where
  "utf8_char c =
     (if c < 128 then Inr [of_nat c]
      else if c < 2048 then Inr [of_nat (192 + c div 64), of_nat (128 + c mod 64)]
      else if 55296 \<le> c \<and> c \<le> 57343 then Inl UnicodeEncodeError
      else if c < 65536 then
        Inr [of_nat (224 + c div 4096), of_nat (128 + (c div 64) mod 64),
             of_nat (128 + c mod 64)]
      else
        Inr [of_nat (240 + c div 262144), of_nat (128 + (c div 4096) mod 64),
             of_nat (128 + (c div 64) mod 64), of_nat (128 + c mod 64)])"

fun encode :: "pystr \<Rightarrow> exn + byte list" where
  "encode [] = Inr []"
| "encode (c # cs) =
     (case utf8_char c of
        Inl e \<Rightarrow> Inl e
      | Inr bs \<Rightarrow> (case encode cs of Inl e \<Rightarrow> Inl e | Inr rest \<Rightarrow> Inr (bs @ rest)))"

section \<open>The voice directory\<close>

text \<open>
  \<open>VOICE_DIR\<close> is a flat directory. Its state is what the calls of the source can
  observe of it, with \<open>pathlib\<close> as in CPython up to 3.13, where \<open>exists\<close> and
  \<open>is_file\<close> answer \<open>False\<close> for a path that is not there (or is a dangling link) and
  re-raise every other \<open>OSError\<close> of the underlying \<open>stat\<close>, such as a permission
  error:
  \<^item> \<open>Stat_fails\<close>: \<open>stat\<close> on \<open>VOICE_DIR\<close> itself raises (a parent directory cannot
    be searched);
  \<^item> \<open>Missing\<close>: there is no such directory;
  \<^item> \<open>Dir can_list can_search entries\<close>: the directory is there; \<open>can_list\<close> says
    whether \<open>iterdir\<close> can enumerate it (read permission), \<open>can_search\<close> whether the
    paths below it can be examined by \<open>stat\<close> (search permission); \<open>entries\<close> are its
    entries in enumeration order.
  An entry has a name and what \<open>stat\<close>, following links, finds under it: a regular
  file, a directory, something else, nothing (a dangling link), or an error (a link
  into a place that cannot be searched).
\<close>

datatype entry_kind = RegularFile | Directory | OtherKind | DanglingLink | Unstattable

type_synonym dir_entry = "pystr \<times> entry_kind"

datatype voice_dir = Stat_fails | Missing | Dir bool bool "dir_entry list"

text \<open>\<open>VOICE_DIR.exists()\<close>\<close>

definition dir_exists :: "voice_dir \<Rightarrow> exn + bool" where
  "dir_exists d =
     (case d of Stat_fails \<Rightarrow> Inl OSError | Missing \<Rightarrow> Inr False | Dir _ _ _ \<Rightarrow> Inr True)"

definition iterdir :: "voice_dir \<Rightarrow> exn + dir_entry list" where
  "iterdir d =
     (case d of
        Dir can_list _ es \<Rightarrow> if can_list then Inr es else Inl OSError
      | _ \<Rightarrow> Inl OSError)"

definition searchable :: "voice_dir \<Rightarrow> bool" where
  "searchable d = (case d of Dir _ can_search _ \<Rightarrow> can_search | _ \<Rightarrow> False)"

text \<open>\<open>f.is_file()\<close> for an entry \<open>f\<close> that \<open>iterdir\<close> has produced.\<close>

definition is_file :: "bool \<Rightarrow> dir_entry \<Rightarrow> exn + bool" where
  "is_file can_search f =
     (if \<not> can_search \<or> snd f = Unstattable then Inl OSError
      else Inr (snd f = RegularFile))"

definition entries_of :: "voice_dir \<Rightarrow> dir_entry list" where
  "entries_of d = (case d of Dir _ _ es \<Rightarrow> es | _ \<Rightarrow> [])"

text \<open>\<open>(VOICE_DIR / fname).exists()\<close>\<close>

definition path_exists :: "voice_dir \<Rightarrow> pystr \<Rightarrow> exn + bool" where
  "path_exists d fname =
     (case d of
        Stat_fails \<Rightarrow> Inl OSError
      | Missing \<Rightarrow> Inr False
      | Dir _ can_search es \<Rightarrow>
          if \<not> can_search then Inl OSError
          else
            (case map_of es fname of
               None \<Rightarrow> Inr False
             | Some DanglingLink \<Rightarrow> Inr False
             | Some Unstattable \<Rightarrow> Inl OSError
             | Some _ \<Rightarrow> Inr True))"

text \<open>
  \<open>VOICE_DIR.mkdir(parents=True, exist_ok=True)\<close>, when it does not raise: a missing
  directory is created, empty and open to its owner.
\<close>

definition mkdir_p :: "voice_dir \<Rightarrow> voice_dir" where
  "mkdir_p d = (case d of Missing \<Rightarrow> Dir True True [] | _ \<Rightarrow> d)"

text \<open>
  Opening \<open>fname\<close> for writing leaves a regular file of that name: an entry of that
  name is replaced, a new one is added. Where a new file shows up in the enumeration
  order is up to the file system; it is put last here, and no theorem depends on it.
\<close>

definition put_file :: "dir_entry list \<Rightarrow> pystr \<Rightarrow> dir_entry list" where
  "put_file es fname =
     (if fname \<in> set (map fst es)
      then map (\<lambda>f. if fst f = fname then (fname, RegularFile) else f) es
      else es @ [(fname, RegularFile)])"

definition write_file :: "voice_dir \<Rightarrow> pystr \<Rightarrow> voice_dir" where
  "write_file d fname =
     (case d of
        Dir can_list can_search es \<Rightarrow> Dir can_list can_search (put_file es fname)
      | _ \<Rightarrow> d)"

subsection \<open>get_available_voices\<close>

text \<open>
  The list comprehension of lines 59 to 63: the entries are visited in enumeration
  order, and the first \<open>is_file\<close> that raises ends the comprehension with its exception.
\<close>

fun wav_stems :: "bool \<Rightarrow> dir_entry list \<Rightarrow> exn + pystr list" where
  "wav_stems can_search [] = Inr []"
| "wav_stems can_search (f # fs) =
     (case is_file can_search f of
        Inl e \<Rightarrow> Inl e
      | Inr file \<Rightarrow>
          (case wav_stems can_search fs of
             Inl e \<Rightarrow> Inl e
           | Inr rest \<Rightarrow>
               Inr (if file \<and> lower (suffix (fst f)) = lit ''.wav''
                    then stem (fst f) # rest else rest)))"

text \<open>The test of line 55 stands before the \<open>try\<close>: what \<open>exists\<close> raises goes to the
  caller. What \<open>iterdir\<close> and \<open>is_file\<close> raise is caught by \<open>except OSError\<close>.\<close>

definition get_available_voices :: "voice_dir \<Rightarrow> exn + pystr list" where
  "get_available_voices d =
     (case dir_exists d of
        Inl e \<Rightarrow> Inl e
      | Inr False \<Rightarrow> Inr []
      | Inr True \<Rightarrow>
          (case (case iterdir d of
                   Inl e \<Rightarrow> Inl e
                 | Inr fs \<Rightarrow> wav_stems (searchable d) fs) of
             Inl OSError \<Rightarrow> Inr []
           | Inl e \<Rightarrow> Inl e
           | Inr vs \<Rightarrow> Inr vs))"

text \<open>Matching \<open>.wav\<close> without regard to case, in the words of the specification:
  a dot followed by w, a, v, each in either case.\<close>

definition wav_suffix_ci :: "pystr \<Rightarrow> bool" where
  "wav_suffix_ci s =
     (\<exists>w \<in> {87, 119}. \<exists>a \<in> {65, 97}. \<exists>v \<in> {86, 118}. s = [46, w, a, v])"

text \<open>The directory can be enumerated and every entry examined: the \<open>try\<close> block of
  \<open>get_available_voices\<close> runs to its end.\<close>

definition listable :: "voice_dir \<Rightarrow> bool" where
  "listable d =
     (case d of
        Dir can_list can_search es \<Rightarrow>
          can_list \<and> can_search \<and> list_all (\<lambda>f. snd f \<noteq> Unstattable) es
      | _ \<Rightarrow> False)"

section \<open>The stubbed synthesis function\<close>

definition tts :: "pystr \<Rightarrow> pystr \<Rightarrow> exn + byte list" where
  "tts voice_name text = encode (lit ''FAKE_AUDIO_FOR_'' @ voice_name)"

section \<open>State, replies and handlers\<close>

text \<open>
  The two module-level dictionaries and the voice directory make up the state every
  handler reads and updates. A handler returns the new state and the calls it made, on
  the chat platform and to \<open>tts\<close>, in order. Logging is left out: it changes neither.
\<close>

type_synonym user_id = int

record bot_state =
  user_selected_voice :: "user_id \<rightharpoonup> pystr"
  awaiting_voice_upload :: "user_id \<rightharpoonup> pystr"
  VOICE_DIR :: voice_dir

text \<open>The texts of the source, one constructor each, with the voice name they quote.\<close>

datatype reply =
    Usage \<comment> \<open>Usage: /newvoice <voice_name>\<close>
  | Invalid_name \<comment> \<open>Invalid voice name. Please use alphanumeric characters.\<close>
  | Already_exists pystr \<comment> \<open>A voice named '...' already exists. Choose a different name.\<close>
  | Preparing pystr \<comment> \<open>Okay, preparing to add new voice: '...'. Please send ...\<close>
  | Voice_set pystr \<comment> \<open>Voice set to '...'.\<close>
  | Unknown_action \<comment> \<open>Sorry, an unknown action occurred.\<close>
  | Waiting_for_audio pystr \<comment> \<open>I'm currently waiting for an audio file for the voice '...'. ...\<close>
  | Tts_failed \<comment> \<open>Sorry, I couldn't generate the speech for that text.\<close>
  | Use_newvoice_first \<comment> \<open>If you want to add this as a new voice, please use the /newvoice <name> command first.\<close>
  | No_audio_received \<comment> \<open>Something went wrong, I didn't receive an audio file. Please try /newvoice again.\<close>
  | Voice_added pystr \<comment> \<open>New voice '...' added successfully!\<close>
  | Save_error pystr \<comment> \<open>Sorry, there was an error saving the voice '...'. Please try again.\<close>

datatype event =
    Reply_text reply \<comment> \<open>update.message.reply_text\<close>
  | Edit_message_text reply \<comment> \<open>query.edit_message_text\<close>
  | Query_answer \<comment> \<open>query.answer()\<close>
  | Send_chat_action \<comment> \<open>context.bot.send_chat_action(..., RECORD_VOICE)\<close>
  | Tts_call pystr pystr \<comment> \<open>tts(selected_voice, text) is called\<close>
  | Reply_voice "byte list" pystr \<comment> \<open>update.message.reply_voice(voice, caption)\<close>

definition DEFAULT_VOICE_NAME :: pystr where
  "DEFAULT_VOICE_NAME = lit ''default''"

definition CALLBACK_PREFIX_VOICE :: pystr where
  "CALLBACK_PREFIX_VOICE = lit ''select_voice:''"

subsection \<open>newvoice_command\<close>

text \<open>The existence test of line 111 is not inside a \<open>try\<close>: what it raises ends the
  handler, before the dictionary is written and before any reply.\<close>

definition newvoice_command ::
  "(nat \<Rightarrow> bool) \<Rightarrow> bot_state \<Rightarrow> user_id \<Rightarrow> pystr list \<Rightarrow> exn + bot_state \<times> event list" where
  "newvoice_command uni st user_id args =
     (if args = [] then Inr (st, [Reply_text Usage])
      else
        let raw_voice_name = join_sp args;
            voice_name = sanitize_voice_name uni raw_voice_name
        in
          if voice_name = [] then Inr (st, [Reply_text Invalid_name])
          else
            (case path_exists (VOICE_DIR st) (voice_name @ lit ''.wav'') of
               Inl e \<Rightarrow> Inl e
             | Inr True \<Rightarrow> Inr (st, [Reply_text (Already_exists voice_name)])
             | Inr False \<Rightarrow>
                 Inr (st\<lparr>awaiting_voice_upload :=
                            (awaiting_voice_upload st)(user_id \<mapsto> voice_name)\<rparr>,
                      [Reply_text (Preparing voice_name)])))"

subsection \<open>button_handler\<close>

definition button_handler :: "bot_state \<Rightarrow> user_id \<Rightarrow> pystr \<Rightarrow> bot_state \<times> event list" where
  "button_handler st user_id data =
     (if startswith data CALLBACK_PREFIX_VOICE then
        let voice_name = drop (length CALLBACK_PREFIX_VOICE) data in
          (st\<lparr>user_selected_voice := (user_selected_voice st)(user_id \<mapsto> voice_name)\<rparr>,
           [Query_answer, Edit_message_text (Voice_set voice_name)])
      else (st, [Query_answer, Edit_message_text Unknown_action]))"

subsection \<open>handle_text\<close>

text \<open>
  Lines 156 to 165 of the source: the voice a synthesis request uses. The test
  \<open>not selected_voice\<close> on the result of \<open>dict.get\<close> is true for \<open>None\<close> and for the
  empty string; in both cases the body of the \<open>if\<close>, \<open>first_available_or_default\<close>,
  chooses the voice.
\<close>

definition first_available_or_default :: "voice_dir \<Rightarrow> exn + pystr" where
  "first_available_or_default d =
     (case get_available_voices d of
        Inl e \<Rightarrow> Inl e
      | Inr available_voices \<Rightarrow>
          (case available_voices of
             v # _ \<Rightarrow> Inr v
           | [] \<Rightarrow> Inr DEFAULT_VOICE_NAME))"

definition determine_voice :: "bot_state \<Rightarrow> user_id \<Rightarrow> exn + pystr" where
  "determine_voice st user_id =
     (case user_selected_voice st user_id of
        None \<Rightarrow> first_available_or_default (VOICE_DIR st)
      | Some selected_voice \<Rightarrow>
          if selected_voice = [] then first_available_or_default (VOICE_DIR st)
          else Inr selected_voice)"

definition handle_text ::
  "bot_state \<Rightarrow> user_id \<Rightarrow> pystr \<Rightarrow> exn + bot_state \<times> event list" where
  "handle_text st user_id text =
     (case awaiting_voice_upload st user_id of
        Some voice_name_pending \<Rightarrow>
          Inr (st, [Reply_text (Waiting_for_audio voice_name_pending)])
      | None \<Rightarrow>
          (case determine_voice st user_id of
             Inl e \<Rightarrow> Inl e
           | Inr selected_voice \<Rightarrow>
               Inr (st,
                 Send_chat_action # Tts_call selected_voice text #
                 (case tts selected_voice text of
                    Inl e \<Rightarrow> [Reply_text Tts_failed]
                  | Inr audio_data \<Rightarrow> [Reply_voice audio_data selected_voice]))))"

subsection \<open>handle_audio\<close>

text \<open>
  The message carries the file id of a voice note, of an audio file, or neither. The
  MIME type of an attached document is only logged, so it is not part of the model.
  What the three calls of the \<open>try\<close> block do is given by the environment:
  \<open>get_file\<close> raises; \<open>mkdir\<close> raises; \<open>download_to_drive\<close> raises, having created
  the target file or not; or all three return. \<open>except Exception\<close> catches whatever is
  raised, so the model only records whether the block ran to its end.
\<close>

record message =
  voice :: "pystr option"
  audio :: "pystr option"

datatype io_outcome = Get_file_raises | Mkdir_raises | Download_raises bool | Saved

definition audio_message_part :: "message \<Rightarrow> pystr option" where
  "audio_message_part msg = (case voice msg of Some v \<Rightarrow> Some v | None \<Rightarrow> audio msg)"

definition try_save :: "voice_dir \<Rightarrow> pystr \<Rightarrow> io_outcome \<Rightarrow> voice_dir \<times> bool" where
  "try_save d fname io =
     (case io of
        Get_file_raises \<Rightarrow> (d, False)
      | Mkdir_raises \<Rightarrow> (d, False)
      | Download_raises created \<Rightarrow>
          (if created then write_file (mkdir_p d) fname else mkdir_p d, False)
      | Saved \<Rightarrow> (write_file (mkdir_p d) fname, True))"

definition handle_audio ::
  "bot_state \<Rightarrow> user_id \<Rightarrow> message \<Rightarrow> io_outcome \<Rightarrow> bot_state \<times> event list" where
  "handle_audio st user_id msg io =
     (case awaiting_voice_upload st user_id of
        None \<Rightarrow> (st, [Reply_text Use_newvoice_first])
      | Some voice_name \<Rightarrow>
          let popped = st\<lparr>awaiting_voice_upload := (awaiting_voice_upload st)(user_id := None)\<rparr>
          in
            (case audio_message_part msg of
               None \<Rightarrow> (popped, [Reply_text No_audio_received])
             | Some part \<Rightarrow>
                 (case try_save (VOICE_DIR popped) (voice_name @ lit ''.wav'') io of
                    (d, True) \<Rightarrow>
                      (popped\<lparr>VOICE_DIR := d\<rparr>, [Reply_text (Voice_added voice_name)])
                  | (d, False) \<Rightarrow>
                      (popped\<lparr>VOICE_DIR := d\<rparr>, [Reply_text (Save_error voice_name)]))))"

text \<open>States and inputs for the examples. In \<open>initial_state\<close> both dictionaries are
  empty and the voice directory is not there yet.\<close>

definition initial_state :: bot_state where
  "initial_state =
     \<lparr>user_selected_voice = Map.empty, awaiting_voice_upload = Map.empty, VOICE_DIR = Missing\<rparr>"

definition voice_note :: message where
  "voice_note = \<lparr>voice = Some (lit ''file-1''), audio = None\<rparr>"

definition awaiting_bob :: bot_state where
  "awaiting_bob = initial_state\<lparr>awaiting_voice_upload := [7 \<mapsto> lit ''bob'']\<rparr>"

definition sample_dir :: voice_dir where
  "sample_dir = Dir True True
     [(lit ''alice.wav'', RegularFile), (lit ''notes.txt'', RegularFile),
      (lit ''old.wav'', Directory), (lit ''bob.WAV'', RegularFile),
      (lit ''.wav'', RegularFile), (lit ''ghost.wav'', DanglingLink)]"

definition chose_bob_state :: bot_state where
  "chose_bob_state =
     \<lparr>user_selected_voice = [7 \<mapsto> lit ''bob''], awaiting_voice_upload = Map.empty,
      VOICE_DIR = sample_dir\<rparr>"

definition empty_selection_state :: bot_state where
  "empty_selection_state =
     fst (button_handler (initial_state\<lparr>VOICE_DIR := sample_dir\<rparr>) 7 (lit ''select_voice:''))"



text \<open>A voice directory that can be written and searched but not enumerated.\<close>

definition write_only_state :: bot_state where
  "write_only_state = initial_state\<lparr>VOICE_DIR := Dir False True []\<rparr>"

section \<open>Sanitization\<close>

lemma keep_char_cases:
  "(\<not> problematic uni c) =
     (if c < 128 then ascii_name_char c else isalnum uni c)"
  by (auto simp: problematic_def word_char_def ascii_name_char_def isalnum_def)

lemma sanitize_filter:
  "sanitize_voice_name uni name =
     take 50 (filter (\<lambda>c. if c < 128 then ascii_name_char c else isalnum uni c) name)"
  by (simp add: sanitize_voice_name_def re_sub_delete_def keep_char_cases)

lemma sanitize_set:
  "c \<in> set (sanitize_voice_name uni name) \<Longrightarrow> c \<in> set name \<and> \<not> problematic uni c"
  unfolding sanitize_voice_name_def re_sub_delete_def
  by (auto dest: in_set_takeD)

text \<open>
  C3 (as amended). The sanitized name is the input with every character deleted that is
  not a word character of Python's Unicode-aware \<open>\w\<close> or a hyphen, cut to at most 50
  characters. Among ASCII characters exactly letters, digits, underscore and hyphen
  survive; a non-ASCII character survives exactly when it is alphanumeric. On inputs that
  are ASCII throughout the result is the one the specification's rule gives.
\<close>

theorem sanitize_voice_name_unicode:
  "sanitize_voice_name uni name =
     take 50 (filter (\<lambda>c. if c < 128 then ascii_name_char c else isalnum uni c) name)
   \<and> length (sanitize_voice_name uni name) \<le> 50
   \<and> ((\<forall>c \<in> set name. c < 128) \<longrightarrow> sanitize_voice_name uni name = spec_sanitize name)"
proof -
  have ascii: "sanitize_voice_name uni name = spec_sanitize name"
    if "\<forall>c \<in> set name. c < 128"
  proof -
    from that have "filter (\<lambda>c. if c < 128 then ascii_name_char c else isalnum uni c) name
        = filter ascii_name_char name"
      by (intro filter_cong) auto
    then show ?thesis
      by (simp add: sanitize_filter spec_sanitize_def)
  qed
  show ?thesis
    using ascii by (simp add: sanitize_filter)
qed

theorem sanitize_voice_name_unicode_witness:
  "list_all (\<lambda>c. c < 128) (lit ''My Voice!'')
   \<and> sanitize_voice_name no_wide_alnum (lit ''My Voice!'') = lit ''MyVoice''
   \<and> spec_sanitize (lit ''My Voice!'') = lit ''MyVoice''"
  using sanitize_voice_name_unicode [of no_wide_alnum "lit ''My Voice!''"]
  by (simp add: lit_def spec_sanitize_def ascii_name_char_def ascii_alnum_def)

text \<open>
  C3 as stated fails: U+00E9 (e with acute accent) is not ASCII, yet it is a word
  character and survives, where the specification's rule deletes it.
\<close>

theorem sanitize_keeps_non_ascii:
  "sanitize_voice_name no_wide_alnum [233] = [233] \<and> spec_sanitize [233] = []
   \<and> \<not> (233::nat) < 128"
  by (simp add: sanitize_voice_name_def re_sub_delete_def problematic_def word_char_def
      isalnum_def latin1_alnum_def spec_sanitize_def ascii_name_char_def ascii_alnum_def)

section \<open>Sequencing: audio without a registration, text during one\<close>

text \<open>
  C7. A user who is not awaiting an upload and sends audio gets the guidance to use
  /newvoice first, and the whole state (both dictionaries and the voice directory) is
  what it was: nothing is written.
\<close>

theorem audio_without_registration_rejected:
  assumes "awaiting_voice_upload st user_id = None"
  shows "handle_audio st user_id msg io = (st, [Reply_text Use_newvoice_first])"
  using assms by (simp add: handle_audio_def)

theorem audio_without_registration_rejected_witness:
  "awaiting_voice_upload initial_state 7 = None
   \<and> handle_audio initial_state 7 voice_note Saved
       = (initial_state, [Reply_text Use_newvoice_first])"
  using audio_without_registration_rejected [of initial_state 7 voice_note Saved]
  by (simp add: initial_state_def)

text \<open>
  C8. A user awaiting an upload for \<open>name\<close> who sends text keeps the state as it is,
  is told that audio for \<open>name\<close> is expected, and the text reaches neither \<open>tts\<close> nor a
  voice reply.
\<close>

theorem text_while_awaiting_upload:
  assumes "awaiting_voice_upload st user_id = Some name"
  shows "\<exists>evs. handle_text st user_id text = Inr (st, evs)
           \<and> evs = [Reply_text (Waiting_for_audio name)]
           \<and> (\<forall>v t. Tts_call v t \<notin> set evs)
           \<and> (\<forall>a c. Reply_voice a c \<notin> set evs)"
  using assms by (simp add: handle_text_def)

theorem text_while_awaiting_upload_witness:
  "awaiting_voice_upload awaiting_bob 7 = Some (lit ''bob'')
   \<and> handle_text awaiting_bob 7 (lit ''hello'')
       = Inr (awaiting_bob, [Reply_text (Waiting_for_audio (lit ''bob''))])"
  using text_while_awaiting_upload [of awaiting_bob 7 "lit ''bob''" "lit ''hello''"]
  by (simp add: awaiting_bob_def initial_state_def)

section \<open>Selection\<close>

text \<open>
  C10. A button press changes neither the pending-registration dictionary nor the voice
  directory, and no other user's selection; with the selection prefix it sets this user's
  selection to the rest of the callback data. A user awaiting an upload for \<open>name\<close>
  still awaits it afterwards.
\<close>

theorem selection_leaves_pending_alone:
  assumes "button_handler st user_id data = (st', evs)"
  shows "awaiting_voice_upload st' = awaiting_voice_upload st
       \<and> VOICE_DIR st' = VOICE_DIR st
       \<and> (\<forall>u. u \<noteq> user_id \<longrightarrow> user_selected_voice st' u = user_selected_voice st u)
       \<and> (startswith data CALLBACK_PREFIX_VOICE \<longrightarrow>
            user_selected_voice st' user_id = Some (drop (length CALLBACK_PREFIX_VOICE) data))
       \<and> (\<forall>name. awaiting_voice_upload st user_id = Some name \<longrightarrow>
            awaiting_voice_upload st' user_id = Some name)"
  using assms by (auto simp: button_handler_def Let_def split: if_splits)

theorem selection_leaves_pending_alone_witness:
  "startswith (lit ''select_voice:alice'') CALLBACK_PREFIX_VOICE
   \<and> awaiting_voice_upload (fst (button_handler awaiting_bob 7 (lit ''select_voice:alice''))) 7
       = Some (lit ''bob'')
   \<and> user_selected_voice (fst (button_handler awaiting_bob 7 (lit ''select_voice:alice''))) 7
       = Some (lit ''alice'')"
  using selection_leaves_pending_alone [of awaiting_bob 7 "lit ''select_voice:alice''"
      "fst (button_handler awaiting_bob 7 (lit ''select_voice:alice''))"
      "snd (button_handler awaiting_bob 7 (lit ''select_voice:alice''))"]
  by (simp add: awaiting_bob_def initial_state_def startswith_def CALLBACK_PREFIX_VOICE_def
      lit_def)

section \<open>The stubbed synthesis function\<close>

lemma encode_ascii:
  "list_all (\<lambda>c. c < 128) s \<Longrightarrow> encode s = Inr (map of_nat s)"
  by (induction s) (simp_all add: utf8_char_def)

lemma lit_ascii: "list_all (\<lambda>c. c < 128) (lit ''FAKE_AUDIO_FOR_'')"
  by (simp add: lit_def)

lemma byte_of_nat_inj:
  "x < 256 \<Longrightarrow> y < 256 \<Longrightarrow> (of_nat x :: byte) = of_nat y \<Longrightarrow> x = y"
  by (simp add: word_of_nat_eq_iff take_bit_nat_eq_self)

lemma ascii_bytes_inj:
  "list_all (\<lambda>c. c < 128) xs \<Longrightarrow> list_all (\<lambda>c. c < 128) ys \<Longrightarrow>
   map (of_nat :: nat \<Rightarrow> byte) xs = map of_nat ys \<Longrightarrow> xs = ys"
proof (induction xs arbitrary: ys)
  case Nil
  then show ?case by simp
next
  case (Cons x xs)
  then obtain y ys' where ys: "ys = y # ys'"
    by (cases ys) auto
  with Cons.prems have "x < 256" "y < 256" "(of_nat x :: byte) = of_nat y"
    by auto
  then have "x = y" by (rule byte_of_nat_inj)
  with Cons ys show ?case by auto
qed

text \<open>
  C9 (as amended). The bytes \<open>tts\<close> returns are the UTF-8 encoding of
  \<open>FAKE_AUDIO_FOR_\<close> followed by the voice name: they do not depend on the text, and they
  are fixed by the voice name (an exception, where the name holds a surrogate that UTF-8
  cannot encode). For an ASCII voice name they are the bytes of the prefix followed by
  the bytes of the name, so two different ASCII voice names give different bytes.
\<close>

theorem tts_ignores_text_only:
  "tts voice_name text = tts voice_name text'
   \<and> tts voice_name text = encode (lit ''FAKE_AUDIO_FOR_'' @ voice_name)
   \<and> (list_all (\<lambda>c. c < 128) voice_name \<longrightarrow>
        tts voice_name text
          = Inr (map of_nat (lit ''FAKE_AUDIO_FOR_'') @ map of_nat voice_name))
   \<and> (list_all (\<lambda>c. c < 128) voice_name \<and> list_all (\<lambda>c. c < 128) other_name
        \<and> voice_name \<noteq> other_name \<longrightarrow> tts voice_name text \<noteq> tts other_name text)"
  using lit_ascii ascii_bytes_inj [of voice_name other_name]
  by (auto simp: tts_def encode_ascii)

theorem tts_ignores_text_only_witness:
  "list_all (\<lambda>c. c < 128) (lit ''bob'')
   \<and> tts (lit ''bob'') (lit ''hello'') = tts (lit ''bob'') (lit ''bye'')
   \<and> tts (lit ''bob'') (lit ''hello'') = Inr (map of_nat (lit ''FAKE_AUDIO_FOR_bob''))"
  using tts_ignores_text_only [of "lit ''bob''" "lit ''hello''" "lit ''bye''" "lit ''alice''"]
  by (simp add: lit_def tts_def utf8_char_def)

text \<open>
  C9 as stated fails: for the same text, the voice names \<open>a\<close> and \<open>b\<close> give different
  bytes.
\<close>

theorem tts_depends_on_voice_name:
  "tts (lit ''a'') (lit ''hello'') \<noteq> tts (lit ''b'') (lit ''hello'')"
  by (simp add: tts_def lit_def utf8_char_def)

section \<open>The catalog listing\<close>

lemma lower_char_dot: "lower_char c = 46 \<longleftrightarrow> c = 46"
  by (auto simp: lower_char_def)

lemma lower_char_w: "lower_char c = 119 \<longleftrightarrow> c = 119 \<or> c = 87"
  by (auto simp: lower_char_def)

lemma lower_char_a: "lower_char c = 97 \<longleftrightarrow> c = 97 \<or> c = 65"
  by (auto simp: lower_char_def)

lemma lower_char_v: "lower_char c = 118 \<longleftrightarrow> c = 118 \<or> c = 86"
  by (auto simp: lower_char_def)

lemma lit_wav: "lit ''.wav'' = [46, 119, 97, 118]"
  by (simp add: lit_def)

lemma lower_wav_iff: "lower s = lit ''.wav'' \<longleftrightarrow> wav_suffix_ci s"
proof
  assume "lower s = lit ''.wav''"
  then have m: "map lower_char s = [46, 119, 97, 118]"
    by (simp add: lower_def lit_wav)
  then obtain d w a v where s: "s = [d, w, a, v]"
    by (auto simp: map_eq_Cons_conv)
  with m show "wav_suffix_ci s"
    by (auto simp: wav_suffix_ci_def lower_char_dot lower_char_w lower_char_a lower_char_v)
next
  assume "wav_suffix_ci s"
  then show "lower s = lit ''.wav''"
    by (auto simp: wav_suffix_ci_def lower_def lit_wav lower_char_def)
qed

lemma wav_stems_examined:
  "list_all (\<lambda>f. snd f \<noteq> Unstattable) fs \<Longrightarrow>
   wav_stems True fs =
     Inr (map (\<lambda>f. stem (fst f))
            (filter (\<lambda>f. snd f = RegularFile \<and> wav_suffix_ci (suffix (fst f))) fs))"
  by (induction fs) (simp_all add: is_file_def lower_wav_iff)

lemma wav_stems_unstattable:
  "\<not> list_all (\<lambda>f. snd f \<noteq> Unstattable) fs \<Longrightarrow> wav_stems True fs = Inl OSError"
  by (induction fs) (auto simp: is_file_def)

lemma wav_stems_unsearchable:
  "wav_stems False fs = (if fs = [] then Inr [] else Inl OSError)"
  by (cases fs) (simp_all add: is_file_def)

lemma listing_missing: "get_available_voices Missing = Inr []"
  by (simp add: get_available_voices_def dir_exists_def)

lemma listing_dir:
  "get_available_voices (Dir can_list can_search es) =
     (if can_list \<and> can_search \<and> list_all (\<lambda>f. snd f \<noteq> Unstattable) es
      then Inr (map (\<lambda>f. stem (fst f))
                  (filter (\<lambda>f. snd f = RegularFile \<and> wav_suffix_ci (suffix (fst f))) es))
      else Inr [])"
proof (cases can_list)
  case False
  then show ?thesis
    by (simp add: get_available_voices_def dir_exists_def iterdir_def)
next
  case True
  show ?thesis
  proof (cases can_search)
    case False
    with True show ?thesis
      by (simp add: get_available_voices_def dir_exists_def iterdir_def searchable_def
          wav_stems_unsearchable)
  next
    case search: True
    show ?thesis
    proof (cases "list_all (\<lambda>f. snd f \<noteq> Unstattable) es")
      case True
      with \<open>can_list\<close> search show ?thesis
        by (simp add: get_available_voices_def dir_exists_def iterdir_def searchable_def
            wav_stems_examined)
    next
      case False
      with \<open>can_list\<close> search show ?thesis
        by (simp add: get_available_voices_def dir_exists_def iterdir_def searchable_def
            wav_stems_unstattable)
    qed
  qed
qed

lemma listing_returns: "d \<noteq> Stat_fails \<Longrightarrow> \<exists>vs. get_available_voices d = Inr vs"
  by (cases d) (simp_all add: listing_missing listing_dir)

lemma not_listable_empty:
  "d \<noteq> Stat_fails \<Longrightarrow> \<not> listable d \<Longrightarrow> get_available_voices d = Inr []"
  by (cases d) (auto simp: listing_missing listing_dir listable_def)

lemma sample_listing: "get_available_voices sample_dir = Inr [lit ''alice'', lit ''bob'']"
  by (simp add: sample_dir_def listing_dir wav_suffix_ci_def lit_def suffix_def stem_def)

text \<open>
  C6 fails on the code. \<open>get_available_voices\<close> does raise to its caller: the test
  \<open>VOICE_DIR.exists()\<close> of line 55 stands before the \<open>try\<close>, so when \<open>stat\<close> on the
  voice directory fails with a permission error the exception leaves the function,
  where the claim has an empty list returned.
\<close>

theorem get_available_voices_raises:
  "get_available_voices Stat_fails = Inl OSError"
  by (simp add: get_available_voices_def dir_exists_def)

section \<open>Voice resolution\<close>

text \<open>
  C4 (as amended). For a user who is not awaiting an upload, the voice handed to \<open>tts\<close>
  is found in this order, first match wins: (1) the user's selection, if there is one and
  it is not the empty string, whatever the state of the catalog; (2) otherwise the first
  entry of the catalog listing, if the listing returns a list that is not empty;
  (3) otherwise, if the listing returns the empty list, the default name. An empty-string
  selection counts as no selection.
\<close>

theorem voice_resolution_order:
  assumes "awaiting_voice_upload st user_id = None"
  shows "(\<forall>s. user_selected_voice st user_id = Some s \<and> s \<noteq> [] \<longrightarrow>
            determine_voice st user_id = Inr s)
       \<and> (\<forall>v vs. (user_selected_voice st user_id = None
                    \<or> user_selected_voice st user_id = Some [])
                 \<and> get_available_voices (VOICE_DIR st) = Inr (v # vs) \<longrightarrow>
            determine_voice st user_id = Inr v)
       \<and> ((user_selected_voice st user_id = None \<or> user_selected_voice st user_id = Some [])
            \<and> get_available_voices (VOICE_DIR st) = Inr [] \<longrightarrow>
            determine_voice st user_id = Inr DEFAULT_VOICE_NAME)
       \<and> (\<forall>v. determine_voice st user_id = Inr v \<longrightarrow>
            (\<exists>rest. handle_text st user_id text
                      = Inr (st, Send_chat_action # Tts_call v text # rest)))"
proof -
  have order:
    "(\<forall>s. user_selected_voice st user_id = Some s \<and> s \<noteq> [] \<longrightarrow>
            determine_voice st user_id = Inr s)
     \<and> (\<forall>v vs. (user_selected_voice st user_id = None
                  \<or> user_selected_voice st user_id = Some [])
               \<and> get_available_voices (VOICE_DIR st) = Inr (v # vs) \<longrightarrow>
          determine_voice st user_id = Inr v)
     \<and> ((user_selected_voice st user_id = None \<or> user_selected_voice st user_id = Some [])
          \<and> get_available_voices (VOICE_DIR st) = Inr [] \<longrightarrow>
          determine_voice st user_id = Inr DEFAULT_VOICE_NAME)"
    by (auto simp: determine_voice_def first_available_or_default_def)
  have ht: "\<exists>rest. handle_text st user_id text
              = Inr (st, Send_chat_action # Tts_call v text # rest)"
    if "determine_voice st user_id = Inr v" for v
    using assms that by (simp add: handle_text_def)
  from order ht show ?thesis by blast
qed

theorem voice_resolution_order_witness:
  "awaiting_voice_upload chose_bob_state 7 = None
   \<and> awaiting_voice_upload chose_bob_state 8 = None
   \<and> get_available_voices (VOICE_DIR chose_bob_state) = Inr [lit ''alice'', lit ''bob'']
   \<and> determine_voice chose_bob_state 7 = Inr (lit ''bob'')
   \<and> determine_voice chose_bob_state 8 = Inr (lit ''alice'')
   \<and> determine_voice initial_state 8 = Inr DEFAULT_VOICE_NAME"
proof -
  have sel: "user_selected_voice chose_bob_state 7 = Some (lit ''bob'')"
      "user_selected_voice chose_bob_state 8 = None"
      "awaiting_voice_upload chose_bob_state 7 = None"
      "awaiting_voice_upload chose_bob_state 8 = None"
      "lit ''bob'' \<noteq> []"
    by (simp_all add: chose_bob_state_def lit_def)
  have ls: "get_available_voices (VOICE_DIR chose_bob_state) = Inr [lit ''alice'', lit ''bob'']"
    by (simp add: chose_bob_state_def sample_listing)
  have init: "user_selected_voice initial_state 8 = None"
      "awaiting_voice_upload initial_state 8 = None"
      "get_available_voices (VOICE_DIR initial_state) = Inr []"
    by (simp_all add: initial_state_def listing_missing)
  show ?thesis
    using voice_resolution_order [of chose_bob_state 7 "lit ''hi''"]
      voice_resolution_order [of chose_bob_state 8 "lit ''hi''"]
      voice_resolution_order [of initial_state 8 "lit ''hi''"]
      sel ls init
    by simp
qed

text \<open>
  C4 as stated fails: after a button press whose callback data is the bare prefix
  \<open>select_voice:\<close> the user has an explicit selection, the empty string, and the voice
  resolved is the first catalog entry, not the selection.
\<close>

theorem empty_selection_not_returned:
  "user_selected_voice empty_selection_state 7 = Some []
   \<and> determine_voice empty_selection_state 7 = Inr (lit ''alice'')
   \<and> lit ''alice'' \<noteq> []"
  by (simp add: empty_selection_state_def button_handler_def startswith_def
      CALLBACK_PREFIX_VOICE_def initial_state_def determine_voice_def
      first_available_or_default_def sample_listing)
     (simp add: lit_def)

section \<open>Registration\<close>





section \<open>Uploads\<close>

lemma rfind_absent: "c \<notin> set xs \<Longrightarrow> rfind xs c = - 1"
  by (induction xs) (simp_all add: Let_def)

lemma rfind_last: "c \<notin> set ys \<Longrightarrow> rfind (xs @ c # ys) c = int (length xs)"
  by (induction xs) (simp_all add: Let_def rfind_absent)

lemma rfind_wav: "rfind (name @ lit ''.wav'') 46 = int (length name)"
  using rfind_last [of 46 "[119, 97, 118]" name] by (simp add: lit_wav)

lemma suffix_wav: "name \<noteq> [] \<Longrightarrow> suffix (name @ lit ''.wav'') = lit ''.wav''"
  by (simp add: suffix_def rfind_wav) (simp add: lit_wav)

lemma stem_wav: "name \<noteq> [] \<Longrightarrow> stem (name @ lit ''.wav'') = name"
  by (simp add: stem_def rfind_wav) (simp add: lit_wav)

lemma wav_is_wav: "wav_suffix_ci (lit ''.wav'')"
  by (simp add: wav_suffix_ci_def lit_wav)

lemma put_file_has: "(fname, RegularFile) \<in> set (put_file es fname)"
  by (induction es) (auto simp: put_file_def)

lemma written_dir:
  "path_exists d fname = Inr b \<Longrightarrow>
   \<exists>can_list can_search es.
     write_file (mkdir_p d) fname = Dir can_list can_search es
     \<and> (fname, RegularFile) \<in> set es"
  by (cases d) (auto simp: path_exists_def mkdir_p_def write_file_def put_file_has)

lemma listed_after_write:
  assumes "path_exists d (name @ lit ''.wav'') = Inr b" and "name \<noteq> []"
      and "listable (write_file (mkdir_p d) (name @ lit ''.wav''))"
  shows "\<exists>vs. get_available_voices (write_file (mkdir_p d) (name @ lit ''.wav'')) = Inr vs
           \<and> name \<in> set vs"
proof -
  obtain can_list can_search es
    where d2: "write_file (mkdir_p d) (name @ lit ''.wav'') = Dir can_list can_search es"
      and mem: "(name @ lit ''.wav'', RegularFile) \<in> set es"
    using written_dir [OF assms(1)] by blast
  from assms(3) have ok: "can_list \<and> can_search \<and> list_all (\<lambda>f. snd f \<noteq> Unstattable) es"
    by (simp add: d2 listable_def)
  have "name \<in> (\<lambda>f. stem (fst f)) `
          {f \<in> set es. snd f = RegularFile \<and> wav_suffix_ci (suffix (fst f))}"
    using mem assms(2) by (force simp: suffix_wav stem_wav wav_is_wav)
  then show ?thesis
    using ok by (simp add: d2 listing_dir)
qed

lemma accepted_name:
  assumes "newvoice_command uni st user_id args = Inr (st1, [Reply_text (Preparing name)])"
  shows "name \<noteq> [] \<and> awaiting_voice_upload st1 user_id = Some name
       \<and> VOICE_DIR st1 = VOICE_DIR st \<and> user_selected_voice st1 = user_selected_voice st
       \<and> path_exists (VOICE_DIR st) (name @ lit ''.wav'') = Inr False"
  using assms
  by (auto simp: newvoice_command_def Let_def split: if_splits sum.splits bool.splits)

text \<open>
  C2 (as amended). When \<open>newvoice_command\<close> has accepted \<open>name\<close> and the audio that
  follows is saved (the reply is the added-successfully message), the user is no longer
  in the pending dictionary and the voice directory holds a regular file \<open><name>.wav\<close>.
  The catalog listing contains \<open>name\<close> if the voice directory can be enumerated and
  every entry of it examined; if not, the listing is empty.
\<close>

theorem register_then_upload:
  assumes "newvoice_command uni st user_id args = Inr (st1, [Reply_text (Preparing name)])"
      and "handle_audio st1 user_id msg io = (st2, [Reply_text (Voice_added n)])"
  shows "n = name
       \<and> awaiting_voice_upload st2 user_id = None
       \<and> (name @ lit ''.wav'', RegularFile) \<in> set (entries_of (VOICE_DIR st2))
       \<and> (listable (VOICE_DIR st2) \<longrightarrow>
            (\<exists>vs. get_available_voices (VOICE_DIR st2) = Inr vs \<and> name \<in> set vs))
       \<and> (\<not> listable (VOICE_DIR st2) \<longrightarrow> get_available_voices (VOICE_DIR st2) = Inr [])
       \<and> user_selected_voice st2 = user_selected_voice st"
proof -
  note acc = accepted_name [OF assms(1)]
  from assms(2) acc have io: "io = Saved" and n: "n = name"
    by (auto simp: handle_audio_def Let_def try_save_def
        split: option.splits io_outcome.splits if_splits)
  from assms(2) acc io have st2:
    "st2 = st1\<lparr>awaiting_voice_upload := (awaiting_voice_upload st1)(user_id := None),
              VOICE_DIR := write_file (mkdir_p (VOICE_DIR st)) (name @ lit ''.wav'')\<rparr>"
    by (auto simp: handle_audio_def Let_def try_save_def split: option.splits)
  from acc obtain can_list can_search es
    where d2: "write_file (mkdir_p (VOICE_DIR st)) (name @ lit ''.wav'')
                 = Dir can_list can_search es"
      and mem: "(name @ lit ''.wav'', RegularFile) \<in> set es"
    using written_dir by blast
  have listed: "listable (VOICE_DIR st2) \<longrightarrow>
      (\<exists>vs. get_available_voices (VOICE_DIR st2) = Inr vs \<and> name \<in> set vs)"
    using acc listed_after_write [of "VOICE_DIR st" name False] by (simp add: st2)
  have unlisted: "\<not> listable (VOICE_DIR st2) \<longrightarrow> get_available_voices (VOICE_DIR st2) = Inr []"
    using not_listable_empty [of "Dir can_list can_search es"] by (simp add: st2 d2)
  have entry: "(name @ lit ''.wav'', RegularFile) \<in> set (entries_of (VOICE_DIR st2))"
    using mem by (simp add: st2 d2 entries_of_def)
  show ?thesis
    using n acc listed unlisted entry by (simp add: st2)
qed

theorem register_then_upload_witness:
  "newvoice_command no_wide_alnum initial_state 7 [lit ''My'', lit ''Voice!'']
     = Inr (initial_state\<lparr>awaiting_voice_upload := [7 \<mapsto> lit ''MyVoice'']\<rparr>,
            [Reply_text (Preparing (lit ''MyVoice''))])
   \<and> handle_audio (initial_state\<lparr>awaiting_voice_upload := [7 \<mapsto> lit ''MyVoice'']\<rparr>) 7
        voice_note Saved
     = (initial_state\<lparr>VOICE_DIR := Dir True True [(lit ''MyVoice.wav'', RegularFile)]\<rparr>,
        [Reply_text (Voice_added (lit ''MyVoice''))])
   \<and> listable (Dir True True [(lit ''MyVoice.wav'', RegularFile)])
   \<and> get_available_voices (Dir True True [(lit ''MyVoice.wav'', RegularFile)])
       = Inr [lit ''MyVoice'']"
proof -
  have reg: "newvoice_command no_wide_alnum initial_state 7 [lit ''My'', lit ''Voice!'']
     = Inr (initial_state\<lparr>awaiting_voice_upload := [7 \<mapsto> lit ''MyVoice'']\<rparr>,
            [Reply_text (Preparing (lit ''MyVoice''))])"
    by (simp add: newvoice_command_def sanitize_voice_name_def re_sub_delete_def
        problematic_def word_char_def isalnum_def ascii_alnum_def lit_def initial_state_def
        path_exists_def Let_def)
  have up: "handle_audio (initial_state\<lparr>awaiting_voice_upload := [7 \<mapsto> lit ''MyVoice'']\<rparr>) 7
        voice_note Saved
     = (initial_state\<lparr>VOICE_DIR := Dir True True [(lit ''MyVoice.wav'', RegularFile)]\<rparr>,
        [Reply_text (Voice_added (lit ''MyVoice''))])"
    by (simp add: handle_audio_def initial_state_def voice_note_def audio_message_part_def
        try_save_def mkdir_p_def write_file_def put_file_def lit_def Let_def fun_eq_iff)
  have ok: "listable (Dir True True [(lit ''MyVoice.wav'', RegularFile)])"
    by (simp add: listable_def)
  have ls: "get_available_voices (Dir True True [(lit ''MyVoice.wav'', RegularFile)])
      = Inr [lit ''MyVoice'']"
    by (simp add: listing_dir wav_suffix_ci_def lit_def suffix_def stem_def)
  show ?thesis
    using register_then_upload [OF reg up] reg up ok ls
    by simp
qed

text \<open>
  C2 as stated fails: in a voice directory that can be written and searched but not
  enumerated, /newvoice bob is accepted and the upload is saved, and the catalog listing
  is empty.
\<close>

theorem saved_voice_not_listed:
  "newvoice_command no_wide_alnum write_only_state 7 [lit ''bob'']
     = Inr (write_only_state\<lparr>awaiting_voice_upload := [7 \<mapsto> lit ''bob'']\<rparr>,
            [Reply_text (Preparing (lit ''bob''))])
   \<and> handle_audio (write_only_state\<lparr>awaiting_voice_upload := [7 \<mapsto> lit ''bob'']\<rparr>) 7
        voice_note Saved
     = (write_only_state\<lparr>VOICE_DIR := Dir False True [(lit ''bob.wav'', RegularFile)]\<rparr>,
        [Reply_text (Voice_added (lit ''bob''))])
   \<and> get_available_voices (Dir False True [(lit ''bob.wav'', RegularFile)]) = Inr []"
  by (simp add: write_only_state_def initial_state_def newvoice_command_def
      sanitize_voice_name_def re_sub_delete_def problematic_def word_char_def isalnum_def
      ascii_alnum_def path_exists_def lit_def Let_def handle_audio_def voice_note_def
      audio_message_part_def try_save_def mkdir_p_def write_file_def put_file_def
      listing_dir fun_eq_iff)

text \<open>
  C1 (as amended). When the upload of a user awaiting one for \<open>name\<close> fails
  (\<open>get_file\<close>, \<open>mkdir\<close> or \<open>download_to_drive\<close> raises), the user's pending entry
  is removed all the same: the user is back to having no registration in progress and
  has to issue /newvoice again. The selections are unchanged, the reply is the
  error-saving message, and the catalog listing is what it was unless the failed download
  left a file behind.
\<close>

theorem failed_upload_clears_pending:
  assumes "awaiting_voice_upload st user_id = Some name"
      and "audio_message_part msg = Some part"
      and "io \<noteq> Saved"
      and "handle_audio st user_id msg io = (st', evs)"
  shows "awaiting_voice_upload st' = (awaiting_voice_upload st)(user_id := None)
       \<and> awaiting_voice_upload st' user_id = None
       \<and> user_selected_voice st' = user_selected_voice st
       \<and> evs = [Reply_text (Save_error name)]
       \<and> (io \<noteq> Download_raises True \<longrightarrow>
            get_available_voices (VOICE_DIR st') = get_available_voices (VOICE_DIR st))"
proof -
  have listing_mkdir: "get_available_voices (mkdir_p d) = get_available_voices d" for d
    by (cases d) (simp_all add: mkdir_p_def listing_missing listing_dir)
  show ?thesis
    using assms
    by (cases io)
       (auto simp: handle_audio_def Let_def try_save_def listing_mkdir split: if_splits)
qed

theorem failed_upload_clears_pending_witness:
  "awaiting_voice_upload awaiting_bob 7 = Some (lit ''bob'')
   \<and> audio_message_part voice_note = Some (lit ''file-1'')
   \<and> handle_audio awaiting_bob 7 voice_note Mkdir_raises
       = (initial_state, [Reply_text (Save_error (lit ''bob''))])"
  using failed_upload_clears_pending [of awaiting_bob 7 "lit ''bob''" voice_note "lit ''file-1''"
      Mkdir_raises "fst (handle_audio awaiting_bob 7 voice_note Mkdir_raises)"
      "snd (handle_audio awaiting_bob 7 voice_note Mkdir_raises)"]
  by (simp add: awaiting_bob_def initial_state_def voice_note_def audio_message_part_def
      handle_audio_def try_save_def Let_def fun_eq_iff)

text \<open>
  C1 as stated fails: after /newvoice bob and an upload whose \<open>get_file\<close> raises, the
  user is not awaiting an upload for \<open>bob\<close> any more.
\<close>

theorem failed_upload_drops_pending:
  "newvoice_command no_wide_alnum initial_state 7 [lit ''bob'']
     = Inr (awaiting_bob, [Reply_text (Preparing (lit ''bob''))])
   \<and> awaiting_voice_upload awaiting_bob 7 = Some (lit ''bob'')
   \<and> awaiting_voice_upload (fst (handle_audio awaiting_bob 7 voice_note Get_file_raises)) 7
       = None
   \<and> awaiting_voice_upload (fst (handle_audio awaiting_bob 7 voice_note Get_file_raises)) 7
       \<noteq> Some (lit ''bob'')"
  by (simp add: awaiting_bob_def initial_state_def voice_note_def audio_message_part_def
      handle_audio_def try_save_def Let_def newvoice_command_def sanitize_voice_name_def
      re_sub_delete_def problematic_def word_char_def isalnum_def ascii_alnum_def lit_def
      path_exists_def)

end
